theory Spec2Isabelle
  imports Main "HOL-Library.Word" "HOL-Library.Sublist" "HOL-Library.List_Lexorder"
    "HOL-Library.Char_ord"
begin

unbundle bit_operations_syntax

section \<open>Data model\<close>

text \<open>
  The entities that \<open>osmium::apply\<close> hands to the handler of
  \<open>command_fileinfo.cpp\<close>. The entity classes themselves belong to the libosmium
  library; only the members that the handler and the renderers read are kept.
\<close>

text \<open>
  \<open>osmium::item_type\<close>, restricted to the values a file reader delivers. The numbers
  are the enumerators' values (\<open>undefined = 0, node = 1, way = 2, relation = 3,
  changeset = 5\<close>); the handler compares them with \<open>>\<close>.
\<close>

datatype object_type = Node | Way | Relation

datatype item_type = T_undefined | T_object object_type | T_changeset

fun object_type_value :: "object_type \<Rightarrow> nat" where
  "object_type_value Node = 1"
| "object_type_value Way = 2"
| "object_type_value Relation = 3"

fun item_type_value :: "item_type \<Rightarrow> nat" where
  "item_type_value T_undefined = 0"
| "item_type_value (T_object k) = object_type_value k"
| "item_type_value T_changeset = 5"

text \<open>\<open>osmium::object_id_type\<close> is \<open>int64_t\<close>; ids are only compared, never computed with.\<close>

type_synonym object_id_type = int

text \<open>
  \<open>osmium::Timestamp\<close>: seconds since the epoch in a \<open>uint32_t\<close>; the value 0 is the
  unset (invalid) timestamp that an object without a timestamp carries.
  \<open>start_of_time()\<close> and \<open>end_of_time()\<close> are the start values of a
  \<open>max_op<Timestamp>\<close> and a \<open>min_op<Timestamp>\<close>.
\<close>

type_synonym Timestamp = "32 word"

definition start_of_time :: Timestamp where
  "start_of_time = 1"

definition end_of_time :: Timestamp where
  "end_of_time = 0xFFFFFFFF"

text \<open>
  \<open>osmium::Location\<close>: two \<open>int32_t\<close> coordinates in units of \<open>10^-7\<close> degrees;
  \<open>undefined_coordinate\<close> marks a coordinate that is not set.
\<close>

record Location =
  loc_x :: int
  loc_y :: int

definition undefined_coordinate :: int where
  "undefined_coordinate = 2147483647"

definition undefined_location :: Location where
  "undefined_location = \<lparr>loc_x = undefined_coordinate, loc_y = undefined_coordinate\<rparr>"

definition location_defined :: "Location \<Rightarrow> bool" where
  \<comment> \<open>\<open>Location::operator bool\<close>\<close>
  "location_defined l \<longleftrightarrow> loc_x l \<noteq> undefined_coordinate \<and> loc_y l \<noteq> undefined_coordinate"

definition location_valid :: "Location \<Rightarrow> bool" where
  \<comment> \<open>\<open>Location::valid\<close>: inside the range of longitudes and latitudes\<close>
  "location_valid l \<longleftrightarrow>
     - 1800000000 \<le> loc_x l \<and> loc_x l \<le> 1800000000 \<and>
     - 900000000 \<le> loc_y l \<and> loc_y l \<le> 900000000"

text \<open>\<open>osmium::Box\<close>: a default-constructed box has two undefined corners.\<close>

record Box =
  bottom_left :: Location
  top_right :: Location

definition empty_box :: Box where
  "empty_box = \<lparr>bottom_left = undefined_location, top_right = undefined_location\<rparr>"

definition box_extend :: "Box \<Rightarrow> Location \<Rightarrow> Box" where
  \<comment> \<open>\<open>Box::extend(const Location&)\<close>\<close>
  "box_extend b l =
     (if location_valid l then
        (if location_defined (bottom_left b) then
           (let b1 = (if loc_x l < loc_x (bottom_left b)
                      then b\<lparr>bottom_left := (bottom_left b)\<lparr>loc_x := loc_x l\<rparr>\<rparr> else b);
                b2 = (if loc_x l > loc_x (top_right b1)
                      then b1\<lparr>top_right := (top_right b1)\<lparr>loc_x := loc_x l\<rparr>\<rparr> else b1);
                b3 = (if loc_y l < loc_y (bottom_left b2)
                      then b2\<lparr>bottom_left := (bottom_left b2)\<lparr>loc_y := loc_y l\<rparr>\<rparr> else b2)
            in (if loc_y l > loc_y (top_right b3)
                then b3\<lparr>top_right := (top_right b3)\<lparr>loc_y := loc_y l\<rparr>\<rparr> else b3))
         else \<lparr>bottom_left = l, top_right = l\<rparr>)
      else b)"

text \<open>
  An OSM object (node, way or relation) and a changeset. \<open>canonical\<close> is the byte
  sequence that \<open>osmium::CRC::update\<close> feeds to the checksum for the entity.
  \<open>location\<close> is read for nodes only.
\<close>

record OSMObject =
  otype :: object_type
  oid :: object_id_type
  timestamp :: Timestamp
  location :: Location
  canonical :: "8 word list"

record Changeset =
  cid :: object_id_type
  ccanonical :: "8 word list"

datatype entity = Changeset_entity Changeset | Object_entity OSMObject

section \<open>Checksum\<close>

text \<open>
  \<open>boost::crc_32_type\<close> is \<open>crc_optimal<32, 0x04C11DB7, 0xFFFFFFFF, 0xFFFFFFFF, true, true>\<close>:
  the reflected CRC-32, kept here as the reflected remainder, bit by bit.
\<close>

definition crc_init :: "32 word" where
  "crc_init = 0xFFFFFFFF"

fun crc_shift :: "nat \<Rightarrow> 32 word \<Rightarrow> 32 word" where
  "crc_shift 0 r = r"
| "crc_shift (Suc n) r =
     crc_shift n (if bit r 0 then drop_bit 1 r XOR 0xEDB88320 else drop_bit 1 r)"

definition process_byte :: "32 word \<Rightarrow> 8 word \<Rightarrow> 32 word" where
  "process_byte r b = crc_shift 8 (r XOR ucast b)"

definition process_bytes :: "32 word \<Rightarrow> 8 word list \<Rightarrow> 32 word" where
  "process_bytes r bs = foldl process_byte r bs"

definition checksum :: "32 word \<Rightarrow> 32 word" where
  "checksum r = r XOR 0xFFFFFFFF"

section \<open>The handler\<close>

text \<open>
  \<open>osmium::id_order\<close> (libosmium, \<open>object_comparisons.hpp\<close>): 0 first, then negative
  ids, then positive ids, both by absolute value; the comparison is
  \<open>const_tie(lhs > 0, abs(lhs)) < const_tie(rhs > 0, abs(rhs))\<close>.
\<close>

definition id_order :: "object_id_type \<Rightarrow> object_id_type \<Rightarrow> bool" where
  "id_order lhs rhs \<longleftrightarrow>
     (\<not> lhs > 0 \<and> rhs > 0) \<or> ((lhs > 0) = (rhs > 0) \<and> \<bar>lhs\<bar> < \<bar>rhs\<bar>)"

record InfoHandler =
  bounds :: Box
  changesets :: "64 word"
  nodes :: "64 word"
  ways :: "64 word"
  relations :: "64 word"
  largest_changeset_id :: object_id_type
  largest_node_id :: object_id_type
  largest_way_id :: object_id_type
  largest_relation_id :: object_id_type
  first_timestamp :: Timestamp
  last_timestamp :: Timestamp
  crc32 :: "32 word"
  ordered :: bool
  multiple_versions :: bool
  last_type :: item_type
  last_id :: object_id_type

definition InfoHandler_init :: InfoHandler where
  "InfoHandler_init =
     \<lparr>bounds = empty_box,
      changesets = 0, nodes = 0, ways = 0, relations = 0,
      largest_changeset_id = 0, largest_node_id = 0,
      largest_way_id = 0, largest_relation_id = 0,
      first_timestamp = end_of_time, last_timestamp = start_of_time,
      crc32 = crc_init,
      ordered = True, multiple_versions = False,
      last_type = T_undefined, last_id = 0\<rparr>"

definition changeset :: "InfoHandler \<Rightarrow> Changeset \<Rightarrow> InfoHandler" where
  "changeset h c =
     (let h1 = (if last_type h = T_changeset
                then (if last_id h > cid c then h\<lparr>ordered := False\<rparr> else h)
                else h\<lparr>last_type := T_changeset\<rparr>)
      in h1\<lparr>last_id := cid c,
             crc32 := process_bytes (crc32 h1) (ccanonical c),
             changesets := changesets h1 + 1,
             largest_changeset_id := max (largest_changeset_id h1) (cid c)\<rparr>)"

definition osm_object :: "InfoHandler \<Rightarrow> OSMObject \<Rightarrow> InfoHandler" where
  "osm_object h ob =
     (let h1 = h\<lparr>first_timestamp := min (first_timestamp h) (timestamp ob),
                  last_timestamp := max (last_timestamp h) (timestamp ob)\<rparr>;
          h2 = (if last_type h1 = T_object (otype ob)
                then (let h3 = (if last_id h1 = oid ob
                                then h1\<lparr>multiple_versions := True\<rparr> else h1)
                      in (if id_order (oid ob) (last_id h3)
                          then h3\<lparr>ordered := False\<rparr> else h3))
                else (if last_type h1 \<noteq> T_changeset
                         \<and> item_type_value (last_type h1) > object_type_value (otype ob)
                      then h1\<lparr>ordered := False\<rparr> else h1))
      in h2\<lparr>last_type := T_object (otype ob), last_id := oid ob\<rparr>)"

definition node :: "InfoHandler \<Rightarrow> OSMObject \<Rightarrow> InfoHandler" where
  "node h n =
     h\<lparr>crc32 := process_bytes (crc32 h) (canonical n),
       bounds := box_extend (bounds h) (location n),
       nodes := nodes h + 1,
       largest_node_id := max (largest_node_id h) (oid n)\<rparr>"

definition way :: "InfoHandler \<Rightarrow> OSMObject \<Rightarrow> InfoHandler" where
  "way h w =
     h\<lparr>crc32 := process_bytes (crc32 h) (canonical w),
       ways := ways h + 1,
       largest_way_id := max (largest_way_id h) (oid w)\<rparr>"

definition relation :: "InfoHandler \<Rightarrow> OSMObject \<Rightarrow> InfoHandler" where
  "relation h r =
     h\<lparr>crc32 := process_bytes (crc32 h) (canonical r),
       relations := relations h + 1,
       largest_relation_id := max (largest_relation_id h) (oid r)\<rparr>"

text \<open>
  \<open>osmium::apply\<close> on one item: a changeset goes to \<open>changeset\<close>; an object goes to
  \<open>osm_object\<close> first and then to the callback of its own type. A buffer, and the
  sequence of buffers read in \<open>CommandFileinfo::run\<close>, is folded from the left.
\<close>

fun apply_item :: "InfoHandler \<Rightarrow> entity \<Rightarrow> InfoHandler" where
  "apply_item h (Changeset_entity c) = changeset h c"
| "apply_item h (Object_entity ob) =
     (case otype ob of
        Node \<Rightarrow> node (osm_object h ob) ob
      | Way \<Rightarrow> way (osm_object h ob) ob
      | Relation \<Rightarrow> relation (osm_object h ob) ob)"

definition apply_all :: "InfoHandler \<Rightarrow> entity list \<Rightarrow> InfoHandler" where
  "apply_all h es = foldl apply_item h es"


definition run_handler :: "entity list \<Rightarrow> InfoHandler" where
  \<comment> \<open>the loop of \<open>CommandFileinfo::run\<close> in extended mode, on a fresh handler\<close>
  "run_handler es = apply_all InfoHandler_init es"

text \<open>The kind and the id of an entity, as the handler stores them in \<open>last_type\<close> and \<open>last_id\<close>.\<close>

fun entity_type :: "entity \<Rightarrow> item_type" where
  "entity_type (Changeset_entity c) = T_changeset"
| "entity_type (Object_entity ob) = T_object (otype ob)"

fun entity_id :: "entity \<Rightarrow> object_id_type" where
  "entity_id (Changeset_entity c) = cid c"
| "entity_id (Object_entity ob) = oid ob"

fun entity_canonical :: "entity \<Rightarrow> 8 word list" where
  "entity_canonical (Changeset_entity c) = ccanonical c"
| "entity_canonical (Object_entity ob) = canonical ob"

definition crc_32 :: "8 word list \<Rightarrow> 32 word" where
  \<comment> \<open>the CRC-32 of a byte sequence: a fresh \<open>boost::crc_32_type\<close>, fed and read\<close>
  "crc_32 bs = checksum (process_bytes crc_init bs)"

text \<open>
  The locations a box covers; a box whose lower left corner is not defined covers none.
  This is the measure by which \<open>bounds\<close> is said to grow.
\<close>

definition box_contains :: "Box \<Rightarrow> Location \<Rightarrow> bool" where
  "box_contains b l \<longleftrightarrow>
     location_defined (bottom_left b) \<and>
     loc_x (bottom_left b) \<le> loc_x l \<and> loc_x l \<le> loc_x (top_right b) \<and>
     loc_y (bottom_left b) \<le> loc_y l \<and> loc_y l \<le> loc_y (top_right b)"

section \<open>Renderers\<close>

text \<open>
  What the renderers are given besides the handler: the file (\<open>m_input_filename\<close> and the
  members of \<open>osmium::io::File\<close> that are read) and the header.
\<close>

record File =
  input_filename :: string
  filename :: string
  format :: string
  compression :: string
  file_size :: nat

text \<open>
  \<open>osmium::io::Header\<close> is a type of the libosmium library. It derives from
  \<open>osmium::util::Options\<close>, which keeps the options in a
  \<open>std::map<std::string, std::string>\<close>: setting a key again overwrites its value, and
  iteration visits the entries in the order of their keys. The options of a header are
  therefore a list of key/value pairs with strictly increasing keys (strings compared
  character by character, characters by their codes).
\<close>

typedef Options = "{xs :: (string \<times> string) list. sorted_wrt (<) (map fst xs)}"
  morphisms entries Options
  by (rule exI [of _ "[]"]) simp

record Header =
  boxes :: "Box list"
  has_multiple_object_versions :: bool
  options :: Options

text \<open>
  Standard output is the list of the lines written, in order: one element for every
  value that is sent to \<open>std::cout\<close> followed by a newline. Text produced by the
  formatting code of libosmium and of the C++ library is kept as the value that is
  formatted: a timestamp in ISO format, a number in lower-case hexadecimal or in decimal,
  a box.
\<close>

datatype printed = Str string | Iso Timestamp | Hex "32 word" | Dec int | Box_text Box

text \<open>
  Modelled from the spec: \<open>yes_no\<close> is declared in \<open>util.hpp\<close>, which is not among the
  sources. It yields the line \<open>yes\<close> or \<open>no\<close>, newline included, as the sibling
  expression \<open>ordered ? "yes\n" : "no\n"\<close> in \<open>SimpleOutput::data\<close> does.
\<close>

definition yes_no :: "bool \<Rightarrow> printed" where
  "yes_no choice = Str (if choice then ''yes'' else ''no'')"

definition SimpleOutput_file :: "string \<Rightarrow> File \<Rightarrow> printed list" where
  "SimpleOutput_file get_value f =
     (if get_value = ''file.name'' then [Str (input_filename f)] else []) @
     (if get_value = ''file.format'' then [Str (format f)] else []) @
     (if get_value = ''file.compression'' then [Str (compression f)] else []) @
     (if get_value = ''file.size''
      then (if filename f = [] then [Dec 0] else [Dec (int (file_size f))])
      else [])"

definition SimpleOutput_header :: "string \<Rightarrow> Header \<Rightarrow> printed list" where
  "SimpleOutput_header get_value hdr =
     (if get_value = ''header.with_history''
      then [yes_no (has_multiple_object_versions hdr)] else []) @
     concat (map (\<lambda>option.
         if get_value = ''header.option.'' @ fst option then [Str (snd option)] else [])
       (entries (options hdr)))"

definition SimpleOutput_data :: "string \<Rightarrow> Header \<Rightarrow> InfoHandler \<Rightarrow> printed list" where
  "SimpleOutput_data get_value hdr info_handler =
     (if get_value = ''data.bbox'' then [Box_text (bounds info_handler)] else []) @
     (if get_value = ''data.timestamp.first''
      then (if first_timestamp info_handler = end_of_time then [Str []]
            else [Iso (first_timestamp info_handler)])
      else []) @
     (if get_value = ''data.timestamp.last''
      then (if first_timestamp info_handler = end_of_time then [Str []]
            else [Iso (last_timestamp info_handler)])
      else []) @
     (if get_value = ''data.objects_ordered''
      then [Str (if ordered info_handler then ''yes'' else ''no'')] else []) @
     (if get_value = ''data.multiple_versions''
      then (if ordered info_handler
            then [Str (if multiple_versions info_handler then ''yes'' else ''no'')]
            else [Str ''unknown''])
      else []) @
     (if get_value = ''data.crc32'' then [Hex (checksum (crc32 info_handler))] else []) @
     (if get_value = ''data.count.changesets''
      then [Dec (uint (changesets info_handler))] else []) @
     (if get_value = ''data.count.nodes'' then [Dec (uint (nodes info_handler))] else []) @
     (if get_value = ''data.count.ways'' then [Dec (uint (ways info_handler))] else []) @
     (if get_value = ''data.count.relations''
      then [Dec (uint (relations info_handler))] else []) @
     (if get_value = ''data.maxid.changesets''
      then [Dec (largest_changeset_id info_handler)] else []) @
     (if get_value = ''data.maxid.nodes'' then [Dec (largest_node_id info_handler)] else []) @
     (if get_value = ''data.maxid.ways'' then [Dec (largest_way_id info_handler)] else []) @
     (if get_value = ''data.maxid.relations''
      then [Dec (largest_relation_id info_handler)] else [])"

text \<open>
  The document that the calls of the \<open>rapidjson\<close> writer build. Inside an object the
  writer takes strings and values in turn as the keys and values of its members, in the
  order of the calls. A number written with \<open>Double\<close> is kept as the coordinate it is
  read from.
\<close>

datatype coordinate = Lon Location | Lat Location

datatype json =
    JNull
  | JBool bool
  | JInt64 int
  | JDouble coordinate
  | JString printed
  | JArray "json list"
  | JObject "(string \<times> json) list"

fun members :: "json \<Rightarrow> (string \<times> json) list" where
  "members (JObject ms) = ms"
| "members j = []"

text \<open>
  \<open>Location::lon\<close> and \<open>Location::lat\<close> (libosmium) throw
  \<open>osmium::invalid_location\<close> when the location is not valid, and return the coordinate
  as a double otherwise. \<open>JSONOutput\<close> catches nothing, so the exception leaves
  \<open>add_bbox\<close> and \<open>data\<close>, and the document is never printed.
\<close>

datatype invalid_location = Invalid_location

definition lon :: "Location \<Rightarrow> invalid_location + coordinate" where
  "lon l = (if location_valid l then Inr (Lon l) else Inl Invalid_location)"

definition lat :: "Location \<Rightarrow> invalid_location + coordinate" where
  "lat l = (if location_valid l then Inr (Lat l) else Inl Invalid_location)"

definition add_bbox :: "Box \<Rightarrow> invalid_location + json" where
  "add_bbox box =
     (case lon (bottom_left box) of Inl e \<Rightarrow> Inl e | Inr x1 \<Rightarrow>
     (case lat (bottom_left box) of Inl e \<Rightarrow> Inl e | Inr y1 \<Rightarrow>
     (case lon (top_right box) of Inl e \<Rightarrow> Inl e | Inr x2 \<Rightarrow>
     (case lat (top_right box) of Inl e \<Rightarrow> Inl e | Inr y2 \<Rightarrow>
        Inr (JArray [JDouble x1, JDouble y1, JDouble x2, JDouble y2])))))"

definition JSONOutput_data :: "Header \<Rightarrow> InfoHandler \<Rightarrow> invalid_location + string \<times> json" where
  \<comment> \<open>the member \<open>data\<close> of the document; \<open>Int64\<close> reads a counter as a signed number\<close>
  "JSONOutput_data hdr info_handler =
     (case add_bbox (bounds info_handler) of
        Inl e \<Rightarrow> Inl e
      | Inr bbox \<Rightarrow>
          Inr (''data'', JObject (
            [(''bbox'', bbox)] @
            (if first_timestamp info_handler \<noteq> end_of_time
             then [(''timestamp'', JObject
                     [(''first'', JString (Iso (first_timestamp info_handler))),
                      (''last'', JString (Iso (last_timestamp info_handler)))])]
             else []) @
            [(''objects_ordered'', JBool (ordered info_handler))] @
            (if ordered info_handler
             then [(''multiple_versions'', JBool (multiple_versions info_handler))]
             else []) @
            [(''crc32'', JString (Hex (checksum (crc32 info_handler)))),
             (''count'', JObject
                [(''changesets'', JInt64 (sint (changesets info_handler))),
                 (''nodes'', JInt64 (sint (nodes info_handler))),
                 (''ways'', JInt64 (sint (ways info_handler))),
                 (''relations'', JInt64 (sint (relations info_handler)))]),
             (''maxid'', JObject
                [(''changesets'', JInt64 (largest_changeset_id info_handler)),
                 (''nodes'', JInt64 (largest_node_id info_handler)),
                 (''ways'', JInt64 (largest_way_id info_handler)),
                 (''relations'', JInt64 (largest_relation_id info_handler))])])))"

section \<open>The command\<close>

text \<open>
  \<open>CommandFileinfo::setup\<close>, from the parsed options on. \<open>vm_get\<close> is \<open>None\<close> when
  \<open>--get\<close> is not given. An \<open>argument_error\<close> is the exception of that name; the
  inherited helpers \<open>setup_common\<close>, \<open>setup_progress\<close> and \<open>setup_input_file\<close> do not
  look at the requested key and are left out.
\<close>

record variables_map =
  vm_extended :: bool
  vm_get :: "string option"
  vm_show_variables :: bool
  vm_json :: bool

datatype argument_error =
    Unknown_value string
  | Extended_needed
  | Get_and_json_together

record CommandFileinfo =
  m_extended :: bool
  m_json_output :: bool
  m_get_value :: string

text \<open>
  The result of \<open>setup\<close>: \<open>false\<close> after the known values were printed (the lines are
  kept), or \<open>true\<close> with the members set.
\<close>

datatype setup_result = Variables_shown "string list" | Ready CommandFileinfo

definition known_values :: "string list" where
  "known_values =
     [''file.name'',
      ''file.format'',
      ''file.compression'',
      ''file.size'',
      ''header.with_history'',
      ''header.option.generator'',
      ''header.option.osmosis_replication_base_url'',
      ''header.option.osmosis_replication_sequence_number'',
      ''header.option.osmosis_replication_timestamp'',
      ''header.option.pbf_dense_nodes'',
      ''header.option.timestamp'',
      ''header.option.version'',
      ''data.bbox'',
      ''data.timestamp.first'',
      ''data.timestamp.last'',
      ''data.objects_ordered'',
      ''data.multiple_versions'',
      ''data.crc32'',
      ''data.count.nodes'',
      ''data.count.ways'',
      ''data.count.relations'',
      ''data.count.changesets'',
      ''data.maxid.nodes'',
      ''data.maxid.ways'',
      ''data.maxid.relations'',
      ''data.maxid.changesets'']"

definition CommandFileinfo_setup :: "variables_map \<Rightarrow> argument_error + setup_result" where
  "CommandFileinfo_setup vm =
     (if vm_show_variables vm then Inr (Variables_shown known_values)
      else
        (case vm_get vm of
           None \<Rightarrow>
             Inr (Ready \<lparr>m_extended = vm_extended vm, m_json_output = vm_json vm,
                         m_get_value = []\<rparr>)
         | Some get_value \<Rightarrow>
             (if take 14 get_value \<noteq> ''header.option.'' \<and> get_value \<notin> set known_values
              then Inl (Unknown_value get_value)
              else if take 5 get_value = ''data.'' \<and> \<not> vm_extended vm
              then Inl Extended_needed
              else if vm_json vm
              then Inl Get_and_json_together
              else Inr (Ready \<lparr>m_extended = vm_extended vm, m_json_output = vm_json vm,
                               m_get_value = get_value\<rparr>))))"

text \<open>
  \<open>CommandFileinfo::run\<close> when the output is a \<open>SimpleOutput\<close>, that is when
  \<open>m_json_output\<close> is false and \<open>m_get_value\<close> is not empty: the lines written by
  \<open>file\<close>, by \<open>header\<close> and, in extended mode only, by \<open>data\<close> on the handler that
  has seen the whole stream.
\<close>

definition run_simple :: "CommandFileinfo \<Rightarrow> File \<Rightarrow> Header \<Rightarrow> entity list \<Rightarrow> printed list" where
  "run_simple cmd f hdr es =
     SimpleOutput_file (m_get_value cmd) f @
     SimpleOutput_header (m_get_value cmd) hdr @
     (if m_extended cmd then SimpleOutput_data (m_get_value cmd) hdr (run_handler es) else [])"


section \<open>One step of the handler\<close>

declare apply_item.simps [simp del]

lemma apply_all_snoc: "apply_all h (es @ [e]) = apply_item (apply_all h es) e"
  by (simp add: apply_all_def)

lemma apply_all_Nil: "apply_all h [] = h"
  by (simp add: apply_all_def)

lemma apply_all_Cons: "apply_all h (e # es) = apply_all (apply_item h e) es"
  by (simp add: apply_all_def)

lemma last_seen_apply_item:
  "last_type (apply_item h e) = entity_type e \<and> last_id (apply_item h e) = entity_id e"
  by (cases e) (simp_all add: apply_item.simps changeset_def osm_object_def node_def way_def
      relation_def Let_def split: object_type.split)

lemma last_seen_apply_all:
  "es \<noteq> [] \<Longrightarrow> last_type (apply_all h es) = entity_type (last es)
      \<and> last_id (apply_all h es) = entity_id (last es)"
proof (induction es rule: rev_induct)
  case Nil
  then show ?case by simp
next
  case (snoc e es)
  show ?case by (simp add: apply_all_snoc last_seen_apply_item)
qed

lemma flags_object:
  "ordered (apply_item h (Object_entity ob)) =
     (if last_type h = T_object (otype ob) then ordered h \<and> \<not> id_order (oid ob) (last_id h)
      else ordered h \<and> \<not> (last_type h \<noteq> T_changeset
             \<and> item_type_value (last_type h) > object_type_value (otype ob)))"
  "multiple_versions (apply_item h (Object_entity ob)) =
     (multiple_versions h \<or> (last_type h = T_object (otype ob) \<and> last_id h = oid ob))"
  by (auto simp add: apply_item.simps osm_object_def node_def way_def relation_def Let_def
      split: object_type.split)

lemma flags_changeset:
  "ordered (apply_item h (Changeset_entity c)) =
     (ordered h \<and> \<not> (last_type h = T_changeset \<and> last_id h > cid c))"
  "multiple_versions (apply_item h (Changeset_entity c)) = multiple_versions h"
  by (auto simp add: apply_item.simps changeset_def Let_def)

lemma run_handler_snoc: "run_handler (es @ [e]) = apply_item (run_handler es) e"
  by (simp add: run_handler_def apply_all_snoc)

lemma run_handler_last_seen:
  "es \<noteq> [] \<Longrightarrow> last_type (run_handler es) = entity_type (last es)"
  "es \<noteq> [] \<Longrightarrow> last_id (run_handler es) = entity_id (last es)"
  by (simp_all add: run_handler_def last_seen_apply_all)

section \<open>Order and duplicate detection\<close>

text \<open>
  C1. In every state of the handler, processing an object \<open>ob\<close> leaves
  \<open>multiple_versions\<close> true if it was true and otherwise sets it exactly when the
  preceding entity was an object of the same kind with the same id. So after any stream
  \<open>es\<close> whose last entity is an object of the kind of \<open>ob\<close>, processing \<open>ob\<close> sets
  \<open>multiple_versions\<close> exactly when the id of that last entity equals the id of \<open>ob\<close>.
  Three nodes with ids 3, 3, 4, whatever their other fields, end with \<open>ordered = true\<close>
  and \<open>multiple_versions = true\<close>; two nodes with ids 3, 4 end with
  \<open>multiple_versions = false\<close>.
\<close>

theorem duplicate_detection:
  "multiple_versions (apply_item h (Object_entity ob)) =
     (multiple_versions h \<or> (last_type h = T_object (otype ob) \<and> last_id h = oid ob))
   \<and> (es \<noteq> [] \<and> entity_type (last es) = T_object (otype ob) \<longrightarrow>
      multiple_versions (run_handler (es @ [Object_entity ob])) =
        (multiple_versions (run_handler es) \<or> entity_id (last es) = oid ob))
   \<and> ordered (run_handler [Object_entity (a\<lparr>otype := Node, oid := 3\<rparr>),
         Object_entity (b\<lparr>otype := Node, oid := 3\<rparr>),
         Object_entity (c\<lparr>otype := Node, oid := 4\<rparr>)])
   \<and> multiple_versions (run_handler [Object_entity (a\<lparr>otype := Node, oid := 3\<rparr>),
         Object_entity (b\<lparr>otype := Node, oid := 3\<rparr>),
         Object_entity (c\<lparr>otype := Node, oid := 4\<rparr>)])
   \<and> \<not> multiple_versions (run_handler [Object_entity (a\<lparr>otype := Node, oid := 3\<rparr>),
         Object_entity (c\<lparr>otype := Node, oid := 4\<rparr>)])"
proof (intro conjI impI)
  show "multiple_versions (apply_item h (Object_entity ob)) =
     (multiple_versions h \<or> (last_type h = T_object (otype ob) \<and> last_id h = oid ob))"
    by (rule flags_object)
next
  assume "es \<noteq> [] \<and> entity_type (last es) = T_object (otype ob)"
  then show "multiple_versions (run_handler (es @ [Object_entity ob])) =
        (multiple_versions (run_handler es) \<or> entity_id (last es) = oid ob)"
    by (simp add: run_handler_snoc flags_object run_handler_last_seen)
next
  show "ordered (run_handler [Object_entity (a\<lparr>otype := Node, oid := 3\<rparr>),
         Object_entity (b\<lparr>otype := Node, oid := 3\<rparr>),
         Object_entity (c\<lparr>otype := Node, oid := 4\<rparr>)])"
    by (simp add: run_handler_def apply_all_Cons apply_all_Nil flags_object
        last_seen_apply_item id_order_def InfoHandler_init_def)
next
  show "multiple_versions (run_handler [Object_entity (a\<lparr>otype := Node, oid := 3\<rparr>),
         Object_entity (b\<lparr>otype := Node, oid := 3\<rparr>),
         Object_entity (c\<lparr>otype := Node, oid := 4\<rparr>)])"
    by (simp add: run_handler_def apply_all_Cons apply_all_Nil flags_object
        last_seen_apply_item id_order_def InfoHandler_init_def)
next
  show "\<not> multiple_versions (run_handler [Object_entity (a\<lparr>otype := Node, oid := 3\<rparr>),
         Object_entity (c\<lparr>otype := Node, oid := 4\<rparr>)])"
    by (simp add: run_handler_def apply_all_Cons apply_all_Nil flags_object
        last_seen_apply_item id_order_def InfoHandler_init_def)
qed

text \<open>
  Two ways with the same id set the flag; a way 7 followed by a way 8 leaves it
  false.
\<close>

theorem duplicate_detection_witness:
  "multiple_versions (run_handler
        ([Object_entity \<lparr>otype = Way, oid = 7, timestamp = 0, location = undefined_location,
           canonical = []\<rparr>]
         @ [Object_entity \<lparr>otype = Way, oid = 7, timestamp = 0, location = undefined_location,
           canonical = []\<rparr>]))
   \<and> \<not> multiple_versions (run_handler
        ([Object_entity \<lparr>otype = Way, oid = 7, timestamp = 0, location = undefined_location,
           canonical = []\<rparr>]
         @ [Object_entity \<lparr>otype = Way, oid = 8, timestamp = 0, location = undefined_location,
           canonical = []\<rparr>]))"
proof -
  let ?w7 = "\<lparr>otype = Way, oid = 7, timestamp = 0, location = undefined_location,
           canonical = []\<rparr>"
  let ?w8 = "\<lparr>otype = Way, oid = 8, timestamp = 0, location = undefined_location,
           canonical = []\<rparr>"
  have first: "\<not> multiple_versions (run_handler [Object_entity ?w7])"
    using duplicate_detection [where h = InfoHandler_init and ob = ?w7]
    by (simp add: run_handler_def apply_all_Cons apply_all_Nil InfoHandler_init_def)
  have hyp: "[Object_entity ?w7] \<noteq> []
      \<and> entity_type (last [Object_entity ?w7]) = T_object (otype ?w7)"
    "[Object_entity ?w7] \<noteq> []
      \<and> entity_type (last [Object_entity ?w7]) = T_object (otype ?w8)"
    by simp_all
  from duplicate_detection [where es = "[Object_entity ?w7]" and ob = ?w7]
    duplicate_detection [where es = "[Object_entity ?w7]" and ob = ?w8] hyp first
  show ?thesis
    by simp
qed

text \<open>
  C2. After any stream \<open>es\<close>, processing a changeset \<open>c\<close> sets \<open>ordered\<close> to false
  exactly when the last entity of \<open>es\<close> is a changeset whose id is strictly greater than
  the id of \<open>c\<close>; otherwise \<open>ordered\<close> keeps its value. Changesets with ids 1, 2, 2, 5 end
  with \<open>ordered = true\<close>, changesets with ids 1, 5, 3 with \<open>ordered = false\<close>.
\<close>

theorem changeset_order_check:
  "ordered (run_handler (es @ [Changeset_entity c])) =
     (ordered (run_handler es)
      \<and> \<not> (es \<noteq> [] \<and> entity_type (last es) = T_changeset \<and> entity_id (last es) > cid c))
   \<and> ordered (run_handler [Changeset_entity (c1\<lparr>cid := 1\<rparr>), Changeset_entity (c2\<lparr>cid := 2\<rparr>),
         Changeset_entity (c3\<lparr>cid := 2\<rparr>), Changeset_entity (c4\<lparr>cid := 5\<rparr>)])
   \<and> \<not> ordered (run_handler [Changeset_entity (c1\<lparr>cid := 1\<rparr>),
         Changeset_entity (c2\<lparr>cid := 5\<rparr>), Changeset_entity (c3\<lparr>cid := 3\<rparr>)])"
proof (intro conjI)
  show "ordered (run_handler (es @ [Changeset_entity c])) =
     (ordered (run_handler es)
      \<and> \<not> (es \<noteq> [] \<and> entity_type (last es) = T_changeset \<and> entity_id (last es) > cid c))"
  proof (cases "es = []")
    case True
    then show ?thesis
      by (simp add: run_handler_def apply_all_Cons apply_all_Nil flags_changeset
          InfoHandler_init_def)
  next
    case False
    then show ?thesis
      by (simp add: run_handler_snoc flags_changeset run_handler_last_seen)
  qed
next
  show "ordered (run_handler [Changeset_entity (c1\<lparr>cid := 1\<rparr>), Changeset_entity (c2\<lparr>cid := 2\<rparr>),
         Changeset_entity (c3\<lparr>cid := 2\<rparr>), Changeset_entity (c4\<lparr>cid := 5\<rparr>)])"
    by (simp add: run_handler_def apply_all_Cons apply_all_Nil flags_changeset
        last_seen_apply_item InfoHandler_init_def)
next
  show "\<not> ordered (run_handler [Changeset_entity (c1\<lparr>cid := 1\<rparr>),
         Changeset_entity (c2\<lparr>cid := 5\<rparr>), Changeset_entity (c3\<lparr>cid := 3\<rparr>)])"
    by (simp add: run_handler_def apply_all_Cons apply_all_Nil flags_changeset
        last_seen_apply_item InfoHandler_init_def)
qed

text \<open>
  C3. After any stream \<open>es\<close> that is empty or whose last entity is not an object of the
  kind of the next object \<open>ob\<close>, processing \<open>ob\<close> sets \<open>ordered\<close> to false exactly when
  the last entity of \<open>es\<close> is an object (not a changeset, and \<open>es\<close> is not empty) whose
  kind ranks strictly higher than the kind of \<open>ob\<close> in the order node, way, relation. A
  node 1, a way 1 and a node 2, in this order, end with \<open>ordered = false\<close>.
\<close>

theorem kind_regression_check:
  "(es = [] \<or> entity_type (last es) \<noteq> T_object (otype ob) \<longrightarrow>
      ordered (run_handler (es @ [Object_entity ob])) =
        (ordered (run_handler es)
         \<and> \<not> (es \<noteq> []
              \<and> (case last es of
                    Object_entity p \<Rightarrow> object_type_value (otype p) > object_type_value (otype ob)
                  | Changeset_entity q \<Rightarrow> False))))
   \<and> \<not> ordered (run_handler [Object_entity (a\<lparr>otype := Node, oid := 1\<rparr>),
         Object_entity (b\<lparr>otype := Way, oid := 1\<rparr>),
         Object_entity (c\<lparr>otype := Node, oid := 2\<rparr>)])"
proof (intro conjI impI)
  assume a: "es = [] \<or> entity_type (last es) \<noteq> T_object (otype ob)"
  show "ordered (run_handler (es @ [Object_entity ob])) =
        (ordered (run_handler es)
         \<and> \<not> (es \<noteq> []
              \<and> (case last es of
                    Object_entity p \<Rightarrow> object_type_value (otype p) > object_type_value (otype ob)
                  | Changeset_entity q \<Rightarrow> False)))"
  proof (cases "es = []")
    case True
    then show ?thesis
      by (simp add: run_handler_def apply_all_Cons apply_all_Nil flags_object
          InfoHandler_init_def)
  next
    case False
    with a have "entity_type (last es) \<noteq> T_object (otype ob)" by simp
    with False show ?thesis
      by (cases "last es")
        (simp_all add: run_handler_snoc flags_object run_handler_last_seen)
  qed
next
  show "\<not> ordered (run_handler [Object_entity (a\<lparr>otype := Node, oid := 1\<rparr>),
         Object_entity (b\<lparr>otype := Way, oid := 1\<rparr>),
         Object_entity (c\<lparr>otype := Node, oid := 2\<rparr>)])"
    by (simp add: run_handler_def apply_all_Cons apply_all_Nil flags_object
        last_seen_apply_item id_order_def InfoHandler_init_def)
qed

theorem kind_regression_check_witness:
  "entity_type (last [Object_entity \<lparr>otype = Relation, oid = 1, timestamp = 0,
        location = undefined_location, canonical = []\<rparr>])
      \<noteq> T_object (otype \<lparr>otype = Way, oid = 2, timestamp = 0, location = undefined_location,
        canonical = []\<rparr>)
   \<and> \<not> ordered (run_handler
        ([Object_entity \<lparr>otype = Relation, oid = 1, timestamp = 0,
           location = undefined_location, canonical = []\<rparr>]
         @ [Object_entity \<lparr>otype = Way, oid = 2, timestamp = 0, location = undefined_location,
           canonical = []\<rparr>]))"
  using kind_regression_check [of "[Object_entity \<lparr>otype = Relation, oid = 1, timestamp = 0,
        location = undefined_location, canonical = []\<rparr>]"
      "\<lparr>otype = Way, oid = 2, timestamp = 0, location = undefined_location, canonical = []\<rparr>"]
  by simp

text \<open>
  C10. After any stream \<open>es\<close> that is empty or whose last entity is a changeset,
  processing an object changes neither \<open>ordered\<close> nor \<open>multiple_versions\<close>, whatever
  the kind and the id of the object. A way 1, a changeset 9 and a node 1, in this order,
  end with \<open>ordered = true\<close>.
\<close>

theorem changeset_resets_lookback:
  "(es = [] \<or> entity_type (last es) = T_changeset \<longrightarrow>
      ordered (run_handler (es @ [Object_entity ob])) = ordered (run_handler es)
      \<and> multiple_versions (run_handler (es @ [Object_entity ob]))
          = multiple_versions (run_handler es))
   \<and> ordered (run_handler [Object_entity (a\<lparr>otype := Way, oid := 1\<rparr>),
         Changeset_entity (c\<lparr>cid := 9\<rparr>),
         Object_entity (b\<lparr>otype := Node, oid := 1\<rparr>)])"
proof (intro conjI impI)
  assume a: "es = [] \<or> entity_type (last es) = T_changeset"
  show "ordered (run_handler (es @ [Object_entity ob])) = ordered (run_handler es)"
  proof (cases "es = []")
    case True
    then show ?thesis
      by (simp add: run_handler_def apply_all_Cons apply_all_Nil flags_object
          InfoHandler_init_def)
  next
    case False
    with a show ?thesis
      by (simp add: run_handler_snoc flags_object run_handler_last_seen)
  qed
  show "multiple_versions (run_handler (es @ [Object_entity ob]))
          = multiple_versions (run_handler es)"
  proof (cases "es = []")
    case True
    then show ?thesis
      by (simp add: run_handler_def apply_all_Cons apply_all_Nil flags_object
          InfoHandler_init_def)
  next
    case False
    with a show ?thesis
      by (simp add: run_handler_snoc flags_object run_handler_last_seen)
  qed
next
  show "ordered (run_handler [Object_entity (a\<lparr>otype := Way, oid := 1\<rparr>),
         Changeset_entity (c\<lparr>cid := 9\<rparr>),
         Object_entity (b\<lparr>otype := Node, oid := 1\<rparr>)])"
    by (simp add: run_handler_def apply_all_Cons apply_all_Nil flags_object flags_changeset
        last_seen_apply_item id_order_def InfoHandler_init_def)
qed

theorem changeset_resets_lookback_witness:
  "entity_type (last [Object_entity \<lparr>otype = Node, oid = 5, timestamp = 0,
        location = undefined_location, canonical = []\<rparr>,
      Changeset_entity \<lparr>cid = 9, ccanonical = []\<rparr>]) = T_changeset
   \<and> ordered (run_handler
        ([Object_entity \<lparr>otype = Node, oid = 5, timestamp = 0,
            location = undefined_location, canonical = []\<rparr>,
          Changeset_entity \<lparr>cid = 9, ccanonical = []\<rparr>]
         @ [Object_entity \<lparr>otype = Node, oid = 5, timestamp = 0,
            location = undefined_location, canonical = []\<rparr>]))
      = ordered (run_handler
        [Object_entity \<lparr>otype = Node, oid = 5, timestamp = 0,
            location = undefined_location, canonical = []\<rparr>,
          Changeset_entity \<lparr>cid = 9, ccanonical = []\<rparr>])
   \<and> multiple_versions (run_handler
        ([Object_entity \<lparr>otype = Node, oid = 5, timestamp = 0,
            location = undefined_location, canonical = []\<rparr>,
          Changeset_entity \<lparr>cid = 9, ccanonical = []\<rparr>]
         @ [Object_entity \<lparr>otype = Node, oid = 5, timestamp = 0,
            location = undefined_location, canonical = []\<rparr>]))
      = multiple_versions (run_handler
        [Object_entity \<lparr>otype = Node, oid = 5, timestamp = 0,
            location = undefined_location, canonical = []\<rparr>,
          Changeset_entity \<lparr>cid = 9, ccanonical = []\<rparr>])"
  using changeset_resets_lookback [of "[Object_entity \<lparr>otype = Node, oid = 5, timestamp = 0,
            location = undefined_location, canonical = []\<rparr>,
          Changeset_entity \<lparr>cid = 9, ccanonical = []\<rparr>]"
      "\<lparr>otype = Node, oid = 5, timestamp = 0, location = undefined_location, canonical = []\<rparr>"]
  by simp

section \<open>Monotone steps\<close>

lemma word_inc_le: "(c :: 64 word) \<noteq> - 1 \<Longrightarrow> c \<le> c + 1"
  by (metis inc_less_eq_self_iff_eq linear)

lemma box_extend_contains:
  "box_contains b l \<Longrightarrow> box_contains (box_extend b p) l"
  by (auto simp add: box_contains_def box_extend_def Let_def location_defined_def
      location_valid_def undefined_coordinate_def)

lemma step_bounds:
  "box_contains (bounds h) l \<Longrightarrow> box_contains (bounds (apply_item h e)) l"
  by (cases e)
    (auto simp add: apply_item.simps changeset_def osm_object_def node_def way_def
      relation_def Let_def box_extend_contains split: object_type.split)

lemma step_counts:
  "changesets (apply_item h e) =
     changesets h + (if entity_type e = T_changeset then 1 else 0)"
  "nodes (apply_item h e) = nodes h + (if entity_type e = T_object Node then 1 else 0)"
  "ways (apply_item h e) = ways h + (if entity_type e = T_object Way then 1 else 0)"
  "relations (apply_item h e) =
     relations h + (if entity_type e = T_object Relation then 1 else 0)"
  by (cases e; simp add: apply_item.simps changeset_def osm_object_def node_def way_def
      relation_def Let_def split: object_type.split)+

lemma step_max_ids:
  "largest_changeset_id h \<le> largest_changeset_id (apply_item h e)"
  "largest_node_id h \<le> largest_node_id (apply_item h e)"
  "largest_way_id h \<le> largest_way_id (apply_item h e)"
  "largest_relation_id h \<le> largest_relation_id (apply_item h e)"
  by (cases e; simp add: apply_item.simps changeset_def osm_object_def node_def way_def
      relation_def Let_def split: object_type.split)+

lemma step_flags:
  "ordered (apply_item h e) \<Longrightarrow> ordered h"
  "multiple_versions h \<Longrightarrow> multiple_versions (apply_item h e)"
  by (cases e; simp add: flags_object flags_changeset split: if_splits)+

lemma nodes_replicate:
  "otype n = Node \<Longrightarrow>
     nodes (apply_all h (replicate k (Object_entity n))) = nodes h + of_nat k"
proof (induction k arbitrary: h)
  case 0
  then show ?case by (simp add: apply_all_Nil)
next
  case (Suc k)
  then show ?case by (simp add: apply_all_Cons step_counts)
qed

text \<open>
  C4, as the code has it. In every step of the handler, from any state: \<open>bounds\<close> keeps
  every location it covers; each of the four counters is incremented by one, modulo
  \<open>2^64\<close>, by an entity of its kind and is left alone otherwise, so it does not decrease
  unless it holds \<open>2^64 - 1\<close>; the four largest ids do not decrease; \<open>ordered\<close> is true
  after the step only if it was true before; \<open>multiple_versions\<close> stays true once it is
  true. A fresh handler has \<open>ordered = true\<close> and \<open>multiple_versions = false\<close>.
\<close>

theorem analyzer_step_monotone:
  "(box_contains (bounds h) l \<longrightarrow> box_contains (bounds (apply_item h e)) l)
   \<and> changesets (apply_item h e)
       = changesets h + (if entity_type e = T_changeset then 1 else 0)
   \<and> nodes (apply_item h e) = nodes h + (if entity_type e = T_object Node then 1 else 0)
   \<and> ways (apply_item h e) = ways h + (if entity_type e = T_object Way then 1 else 0)
   \<and> relations (apply_item h e)
       = relations h + (if entity_type e = T_object Relation then 1 else 0)
   \<and> (changesets h \<noteq> - 1 \<longrightarrow> changesets h \<le> changesets (apply_item h e))
   \<and> (nodes h \<noteq> - 1 \<longrightarrow> nodes h \<le> nodes (apply_item h e))
   \<and> (ways h \<noteq> - 1 \<longrightarrow> ways h \<le> ways (apply_item h e))
   \<and> (relations h \<noteq> - 1 \<longrightarrow> relations h \<le> relations (apply_item h e))
   \<and> largest_changeset_id h \<le> largest_changeset_id (apply_item h e)
   \<and> largest_node_id h \<le> largest_node_id (apply_item h e)
   \<and> largest_way_id h \<le> largest_way_id (apply_item h e)
   \<and> largest_relation_id h \<le> largest_relation_id (apply_item h e)
   \<and> (ordered (apply_item h e) \<longrightarrow> ordered h)
   \<and> (multiple_versions h \<longrightarrow> multiple_versions (apply_item h e))
   \<and> ordered InfoHandler_init
   \<and> \<not> multiple_versions InfoHandler_init"
proof -
  have counts_mono:
    "changesets h \<noteq> - 1 \<longrightarrow> changesets h \<le> changesets (apply_item h e)"
    "nodes h \<noteq> - 1 \<longrightarrow> nodes h \<le> nodes (apply_item h e)"
    "ways h \<noteq> - 1 \<longrightarrow> ways h \<le> ways (apply_item h e)"
    "relations h \<noteq> - 1 \<longrightarrow> relations h \<le> relations (apply_item h e)"
    by (simp_all add: step_counts word_inc_le)
  have start: "ordered InfoHandler_init" "\<not> multiple_versions InfoHandler_init"
    by (simp_all add: InfoHandler_init_def)
  show ?thesis
    using step_bounds [of h l e] step_counts [of h e] counts_mono step_max_ids [of h e]
      step_flags [of h e] start
    by blast
qed

theorem analyzer_step_monotone_witness:
  "box_contains
     (bounds (apply_item
        \<lparr>bounds = \<lparr>bottom_left = \<lparr>loc_x = 0, loc_y = 0\<rparr>,
                   top_right = \<lparr>loc_x = 10, loc_y = 10\<rparr>\<rparr>,
         changesets = 0, nodes = 2, ways = 0, relations = 0,
         largest_changeset_id = 0, largest_node_id = 5,
         largest_way_id = 0, largest_relation_id = 0,
         first_timestamp = 7, last_timestamp = 7, crc32 = 0,
         ordered = True, multiple_versions = True,
         last_type = T_object Node, last_id = 5\<rparr>
        (Object_entity \<lparr>otype = Node, oid = 5, timestamp = 8,
           location = \<lparr>loc_x = 20, loc_y = 4\<rparr>, canonical = []\<rparr>)))
     \<lparr>loc_x = 1, loc_y = 1\<rparr>
   \<and> nodes (apply_item
        \<lparr>bounds = \<lparr>bottom_left = \<lparr>loc_x = 0, loc_y = 0\<rparr>,
                   top_right = \<lparr>loc_x = 10, loc_y = 10\<rparr>\<rparr>,
         changesets = 0, nodes = 2, ways = 0, relations = 0,
         largest_changeset_id = 0, largest_node_id = 5,
         largest_way_id = 0, largest_relation_id = 0,
         first_timestamp = 7, last_timestamp = 7, crc32 = 0,
         ordered = True, multiple_versions = True,
         last_type = T_object Node, last_id = 5\<rparr>
        (Object_entity \<lparr>otype = Node, oid = 5, timestamp = 8,
           location = \<lparr>loc_x = 20, loc_y = 4\<rparr>, canonical = []\<rparr>)) = 3
   \<and> multiple_versions (apply_item
        \<lparr>bounds = \<lparr>bottom_left = \<lparr>loc_x = 0, loc_y = 0\<rparr>,
                   top_right = \<lparr>loc_x = 10, loc_y = 10\<rparr>\<rparr>,
         changesets = 0, nodes = 2, ways = 0, relations = 0,
         largest_changeset_id = 0, largest_node_id = 5,
         largest_way_id = 0, largest_relation_id = 0,
         first_timestamp = 7, last_timestamp = 7, crc32 = 0,
         ordered = True, multiple_versions = True,
         last_type = T_object Node, last_id = 5\<rparr>
        (Object_entity \<lparr>otype = Node, oid = 5, timestamp = 8,
           location = \<lparr>loc_x = 20, loc_y = 4\<rparr>, canonical = []\<rparr>))"
proof -
  let ?h = "\<lparr>bounds = \<lparr>bottom_left = \<lparr>loc_x = 0, loc_y = 0\<rparr>,
                   top_right = \<lparr>loc_x = 10, loc_y = 10\<rparr>\<rparr>,
         changesets = 0, nodes = 2, ways = 0, relations = 0,
         largest_changeset_id = 0, largest_node_id = 5,
         largest_way_id = 0, largest_relation_id = 0,
         first_timestamp = 7, last_timestamp = 7, crc32 = 0,
         ordered = True, multiple_versions = True,
         last_type = T_object Node, last_id = 5\<rparr>"
  let ?e = "Object_entity \<lparr>otype = Node, oid = 5, timestamp = 8,
           location = \<lparr>loc_x = 20, loc_y = 4\<rparr>, canonical = []\<rparr>"
  have covered: "box_contains (bounds ?h) \<lparr>loc_x = 1, loc_y = 1\<rparr>"
    by (simp add: box_contains_def location_defined_def undefined_coordinate_def)
  have flag: "multiple_versions ?h"
    by simp
  from analyzer_step_monotone [of ?h "\<lparr>loc_x = 1, loc_y = 1\<rparr>" ?e] covered flag
  show ?thesis
    by simp
qed

text \<open>
  A stream of \<open>2^64 - 1\<close> nodes brings the node counter to \<open>2^64 - 1\<close>; one more node
  and the counter is smaller than before.
\<close>

theorem counter_wraps:
  "nodes (run_handler (replicate (2 ^ 64 - 1)
       (Object_entity \<lparr>otype = Node, oid = 1, timestamp = 0,
          location = undefined_location, canonical = []\<rparr>)
       @ [Object_entity \<lparr>otype = Node, oid = 1, timestamp = 0,
          location = undefined_location, canonical = []\<rparr>]))
   < nodes (run_handler (replicate (2 ^ 64 - 1)
       (Object_entity \<lparr>otype = Node, oid = 1, timestamp = 0,
          location = undefined_location, canonical = []\<rparr>)))"
proof -
  let ?n = "\<lparr>otype = Node, oid = 1, timestamp = 0,
          location = undefined_location, canonical = []\<rparr>"
  have a: "nodes (run_handler (replicate (2 ^ 64 - 1) (Object_entity ?n)))
      = of_nat (2 ^ 64 - 1)"
    by (simp add: run_handler_def nodes_replicate InfoHandler_init_def)
  have b: "(of_nat (2 ^ 64 - 1) :: 64 word) = - 1"
    by simp
  have c: "nodes (run_handler (replicate (2 ^ 64 - 1) (Object_entity ?n) @ [Object_entity ?n]))
      = nodes (run_handler (replicate (2 ^ 64 - 1) (Object_entity ?n))) + 1"
    by (simp only: run_handler_snoc step_counts) simp
  show ?thesis
    unfolding c unfolding a b by (simp add: word_gt_0)
qed

section \<open>Timestamps\<close>

lemma timestamps_object:
  "first_timestamp (apply_item h (Object_entity ob)) = min (first_timestamp h) (timestamp ob)"
  "last_timestamp (apply_item h (Object_entity ob)) = max (last_timestamp h) (timestamp ob)"
  by (simp_all add: apply_item.simps osm_object_def node_def way_def relation_def Let_def
      split: object_type.split)

lemma timestamps_changeset:
  "first_timestamp (apply_item h (Changeset_entity c)) = first_timestamp h"
  "last_timestamp (apply_item h (Changeset_entity c)) = last_timestamp h"
  by (simp_all add: apply_item.simps changeset_def Let_def)

lemma end_of_time_max: "end_of_time = - 1"
  by (simp add: end_of_time_def)

lemma min_end_of_time: "(min a b = end_of_time) = (a = end_of_time \<and> b = end_of_time)"
  for a b :: Timestamp
  unfolding end_of_time_max
  by (metis min.absorb2 min.cobounded1 min.commute word_n1_ge word_order.extremum_unique)

lemma first_timestamp_apply_all:
  "(first_timestamp (apply_all h es) = end_of_time) =
     (first_timestamp h = end_of_time
      \<and> (\<forall>e \<in> set es. case e of Changeset_entity c \<Rightarrow> True
            | Object_entity ob \<Rightarrow> timestamp ob = end_of_time))"
proof (induction es arbitrary: h)
  case Nil
  then show ?case by (simp add: apply_all_Nil)
next
  case (Cons e es)
  show ?case
    by (cases e)
      (auto simp add: apply_all_Cons Cons.IH timestamps_object timestamps_changeset
        min_end_of_time)
qed

lemma last_timestamp_mono: "last_timestamp h \<le> last_timestamp (apply_all h es)"
proof (induction es arbitrary: h)
  case Nil
  then show ?case by (simp add: apply_all_Nil)
next
  case (Cons e es)
  have "last_timestamp h \<le> last_timestamp (apply_item h e)"
    by (cases e) (simp_all add: timestamps_object timestamps_changeset)
  also have "\<dots> \<le> last_timestamp (apply_all (apply_item h e) es)"
    by (rule Cons.IH)
  finally show ?case by (simp add: apply_all_Cons)
qed

lemma last_timestamp_apply_all:
  "last_timestamp h = start_of_time \<Longrightarrow>
   (last_timestamp (apply_all h es) = start_of_time) =
     (\<forall>e \<in> set es. case e of Changeset_entity c \<Rightarrow> True
            | Object_entity ob \<Rightarrow> timestamp ob \<le> start_of_time)"
proof (induction es arbitrary: h)
  case Nil
  then show ?case by (simp add: apply_all_Nil)
next
  case (Cons e es)
  show ?case
  proof (cases e)
    case (Changeset_entity c)
    with Cons show ?thesis
      by (simp add: apply_all_Cons timestamps_changeset)
  next
    case (Object_entity ob)
    show ?thesis
    proof (cases "timestamp ob \<le> start_of_time")
      case True
      with Cons.prems have "last_timestamp (apply_item h e) = start_of_time"
        by (simp add: Object_entity timestamps_object max_def)
      from Cons.IH [OF this] True show ?thesis
        by (simp add: apply_all_Cons Object_entity)
    next
      case False
      with Cons.prems have "start_of_time < last_timestamp (apply_item h e)"
        by (auto simp add: Object_entity timestamps_object max_def)
      also have "\<dots> \<le> last_timestamp (apply_all (apply_item h e) es)"
        by (rule last_timestamp_mono)
      finally have "last_timestamp (apply_all h (e # es)) \<noteq> start_of_time"
        by (simp add: apply_all_Cons)
      with False show ?thesis
        by (simp add: Object_entity)
    qed
  qed
qed

text \<open>
  Both trackers are updated with the timestamp of every object, and the start value of the
  minimum lies above the start value of the maximum. So no timestamp value at all is
  ignored by a fresh handler: whatever timestamp the first object carries, one of the two
  trackers leaves its start value.
\<close>

lemma no_timestamp_is_ignored:
  "first_timestamp (apply_item InfoHandler_init (Object_entity ob))
     \<noteq> first_timestamp InfoHandler_init
   \<or> last_timestamp (apply_item InfoHandler_init (Object_entity ob))
     \<noteq> last_timestamp InfoHandler_init"
proof (cases "timestamp ob = end_of_time")
  case True
  then have "last_timestamp (apply_item InfoHandler_init (Object_entity ob)) = end_of_time"
    by (simp add: timestamps_object InfoHandler_init_def end_of_time_def start_of_time_def)
  then show ?thesis
    by (simp add: InfoHandler_init_def end_of_time_def start_of_time_def)
next
  case False
  then have "first_timestamp (apply_item InfoHandler_init (Object_entity ob)) \<noteq> end_of_time"
    by (simp add: timestamps_object min_end_of_time)
  then show ?thesis
    by (simp add: InfoHandler_init_def)
qed

text \<open>
  C7, as the code has it. Processing an object whose timestamp is absent (the unset
  value 0) leaves \<open>last_timestamp\<close> unchanged and sets \<open>first_timestamp\<close> to the unset
  value 0: the absent timestamp is excluded from the maximum only. After a stream,
  \<open>first_timestamp\<close> still holds its start value \<open>end_of_time\<close> exactly when the stream
  has no object with a timestamp other than \<open>end_of_time\<close>, and \<open>last_timestamp\<close> still
  holds its start value \<open>start_of_time\<close> exactly when the stream has no object with a
  timestamp above \<open>start_of_time\<close>; both hold after a stream without objects.
\<close>

theorem absent_timestamp:
  "last_timestamp (apply_item h (Object_entity (ob\<lparr>timestamp := 0\<rparr>))) = last_timestamp h
   \<and> first_timestamp (apply_item h (Object_entity (ob\<lparr>timestamp := 0\<rparr>))) = 0
   \<and> (first_timestamp (run_handler es) = end_of_time) =
       (\<forall>e \<in> set es. case e of Changeset_entity c \<Rightarrow> True
            | Object_entity p \<Rightarrow> timestamp p = end_of_time)
   \<and> (last_timestamp (run_handler es) = start_of_time) =
       (\<forall>e \<in> set es. case e of Changeset_entity c \<Rightarrow> True
            | Object_entity p \<Rightarrow> timestamp p \<le> start_of_time)"
proof (intro conjI)
  show "last_timestamp (apply_item h (Object_entity (ob\<lparr>timestamp := 0\<rparr>))) = last_timestamp h"
    by (simp add: timestamps_object)
  show "first_timestamp (apply_item h (Object_entity (ob\<lparr>timestamp := 0\<rparr>))) = 0"
    by (simp add: timestamps_object)
  show "(first_timestamp (run_handler es) = end_of_time) =
       (\<forall>e \<in> set es. case e of Changeset_entity c \<Rightarrow> True
            | Object_entity p \<Rightarrow> timestamp p = end_of_time)"
    by (simp add: run_handler_def first_timestamp_apply_all InfoHandler_init_def)
  show "(last_timestamp (run_handler es) = start_of_time) =
       (\<forall>e \<in> set es. case e of Changeset_entity c \<Rightarrow> True
            | Object_entity p \<Rightarrow> timestamp p \<le> start_of_time)"
    by (rule last_timestamp_apply_all [of InfoHandler_init es, folded run_handler_def])
      (simp add: InfoHandler_init_def)
qed

theorem absent_timestamp_witness:
  "first_timestamp (run_handler [Changeset_entity \<lparr>cid = 1, ccanonical = []\<rparr>]) = end_of_time
   \<and> last_timestamp (run_handler [Changeset_entity \<lparr>cid = 1, ccanonical = []\<rparr>])
       = start_of_time"
  using absent_timestamp [of InfoHandler_init
      "\<lparr>otype = Node, oid = 1, timestamp = 0, location = undefined_location, canonical = []\<rparr>"
      "[Changeset_entity \<lparr>cid = 1, ccanonical = []\<rparr>]"]
  by simp

text \<open>
  One node without a timestamp: \<open>first_timestamp\<close> is no longer what it was before the
  node.
\<close>

theorem absent_timestamp_changes_first:
  "first_timestamp (run_handler
      [Object_entity \<lparr>otype = Node, oid = 1, timestamp = 0,
         location = undefined_location, canonical = []\<rparr>])
   \<noteq> first_timestamp (run_handler [])"
  by (simp add: run_handler_def apply_all_Cons apply_all_Nil timestamps_object
      InfoHandler_init_def end_of_time_def)

section \<open>The checksum of a stream\<close>

lemma process_bytes_append:
  "process_bytes r (xs @ ys) = process_bytes (process_bytes r xs) ys"
  by (simp add: process_bytes_def)

lemma crc32_apply_item:
  "crc32 (apply_item h e) = process_bytes (crc32 h) (entity_canonical e)"
  by (cases e)
    (simp_all add: apply_item.simps changeset_def osm_object_def node_def way_def
      relation_def Let_def split: object_type.split)

lemma crc32_apply_all:
  "crc32 (apply_all h es) = process_bytes (crc32 h) (concat (map entity_canonical es))"
proof (induction es arbitrary: h)
  case Nil
  then show ?case by (simp add: apply_all_Nil process_bytes_def)
next
  case (Cons e es)
  then show ?case
    by (simp add: apply_all_Cons crc32_apply_item process_bytes_append)
qed

text \<open>The model of \<open>boost::crc_32_type\<close> gives the standard check value on \<open>123456789\<close>.\<close>

lemma crc_32_check_value:
  "crc_32 [0x31, 0x32, 0x33, 0x34, 0x35, 0x36, 0x37, 0x38, 0x39] = 0xCBF43926"
  by code_simp

text \<open>
  The register of the CRC is linear over GF(2) in its start value: a difference between
  two registers is shifted on its own and added back.
\<close>

lemma crc_shift_xor: "crc_shift n (a XOR b) = crc_shift n a XOR crc_shift n b"
proof (induction n arbitrary: a b)
  case 0
  then show ?case by simp
next
  case (Suc n)
  have "(if bit (a XOR b) 0 then drop_bit 1 (a XOR b) XOR 0xEDB88320 else drop_bit 1 (a XOR b))
      = (if bit a 0 then drop_bit 1 a XOR 0xEDB88320 else drop_bit 1 a)
        XOR (if bit b 0 then drop_bit 1 b XOR 0xEDB88320 else drop_bit 1 b)"
    by (simp add: bit_xor_iff drop_bit_xor ac_simps)
  then show ?case
    by (simp only: crc_shift.simps Suc.IH)
qed

lemma crc_shift_add: "crc_shift (m + n) r = crc_shift n (crc_shift m r)"
  by (induction m arbitrary: r) simp_all

lemma process_byte_xor: "process_byte (r XOR d) x = process_byte r x XOR crc_shift 8 d"
proof -
  have "r XOR d XOR ucast x = (r XOR ucast x) XOR d"
    by (simp add: ac_simps)
  then show ?thesis
    by (simp add: process_byte_def crc_shift_xor ac_simps)
qed

lemma process_bytes_xor:
  "process_bytes (r XOR d) bs = process_bytes r bs XOR crc_shift (8 * length bs) d"
proof (induction bs arbitrary: r d)
  case Nil
  then show ?case by (simp add: process_bytes_def)
next
  case (Cons x bs)
  have "process_bytes (r XOR d) (x # bs) = process_bytes (process_byte r x XOR crc_shift 8 d) bs"
    by (simp add: process_bytes_def process_byte_xor)
  also have "\<dots> = process_bytes (process_byte r x) bs
      XOR crc_shift (8 * length bs) (crc_shift 8 d)"
    by (rule Cons.IH)
  also have "crc_shift (8 * length bs) (crc_shift 8 d) = crc_shift (8 * length (x # bs)) d"
    using crc_shift_add [of 8 "8 * length bs" d] by simp
  finally show ?case
    by (simp add: process_bytes_def)
qed

text \<open>
  The ids 8000000000 and 128407105 as eight bytes each, low byte first. The two byte
  sequences differ by a multiple of the generator polynomial, so they take the register
  from any value to the same value.
\<close>

lemma id_bytes_zero:
  "process_bytes 0 [0, 80, 214, 220, 1, 0, 0, 0] = process_bytes 0 [65, 86, 167, 7, 0, 0, 0, 0]"
  by code_simp

lemma id_bytes_collide:
  "process_bytes r [0, 80, 214, 220, 1, 0, 0, 0] = process_bytes r [65, 86, 167, 7, 0, 0, 0, 0]"
proof -
  have "process_bytes (0 XOR r) [0, 80, 214, 220, 1, 0, 0, 0]
      = process_bytes (0 XOR r) [65, 86, 167, 7, 0, 0, 0, 0]"
    by (simp only: process_bytes_xor id_bytes_zero) simp
  then show ?thesis by simp
qed

lemma swapped_ids_collide:
  "entity_canonical a = [0, 80, 214, 220, 1, 0, 0, 0] @ t \<Longrightarrow>
   entity_canonical b = [65, 86, 167, 7, 0, 0, 0, 0] @ t \<Longrightarrow>
   crc32 (apply_all h [a, b]) = crc32 (apply_all h [b, a])"
proof -
  assume a: "entity_canonical a = [0, 80, 214, 220, 1, 0, 0, 0] @ t"
    and b: "entity_canonical b = [65, 86, 167, 7, 0, 0, 0, 0] @ t"
  let ?A = "[0, 80, 214, 220, 1, 0, 0, 0] :: 8 word list"
  let ?B = "[65, 86, 167, 7, 0, 0, 0, 0] :: 8 word list"
  let ?r = "crc32 h"
  have "crc32 (apply_all h [a, b]) =
      process_bytes (process_bytes (process_bytes (process_bytes ?r ?A) t) ?B) t"
    by (simp add: crc32_apply_all a b process_bytes_append del: append.simps)
  also have "\<dots> = process_bytes (process_bytes (process_bytes (process_bytes ?r ?B) t) ?B) t"
    by (simp only: id_bytes_collide [of ?r])
  also have "\<dots> = process_bytes (process_bytes (process_bytes (process_bytes ?r ?B) t) ?A) t"
    by (simp only: id_bytes_collide [of "process_bytes (process_bytes ?r ?B) t"])
  also have "\<dots> = crc32 (apply_all h [b, a])"
    by (simp add: crc32_apply_all a b process_bytes_append del: append.simps)
  finally show ?thesis .
qed

text \<open>
  C8, as the code has it. The checksum of a stream is the CRC-32 of the canonical
  encodings of its entities, concatenated in stream order: it depends on the content and
  the order of the stream through this byte sequence only. Two streams with the same
  concatenation, or with concatenations that collide under CRC-32, have the same checksum.
\<close>

theorem checksum_of_stream:
  "checksum (crc32 (run_handler es)) = crc_32 (concat (map entity_canonical es))"
  by (simp add: run_handler_def crc32_apply_all crc_32_def InfoHandler_init_def)

text \<open>
  Two nodes whose encodings differ in the eight bytes of the id only (the ids
  8000000000 and 128407105, low byte first, followed by the same five bytes): the
  encodings differ, and the checksum of the two nodes is the same in both orders.
\<close>

theorem checksum_order_collision:
  "canonical \<lparr>otype = Node, oid = 8000000000, timestamp = 0, location = undefined_location,
       canonical = [0, 80, 214, 220, 1, 0, 0, 0, 1, 1, 0, 0, 0]\<rparr>
     \<noteq> canonical \<lparr>otype = Node, oid = 128407105, timestamp = 0,
       location = undefined_location, canonical = [65, 86, 167, 7, 0, 0, 0, 0, 1, 1, 0, 0, 0]\<rparr>
   \<and> checksum (crc32 (run_handler
        [Object_entity \<lparr>otype = Node, oid = 8000000000, timestamp = 0,
           location = undefined_location,
           canonical = [0, 80, 214, 220, 1, 0, 0, 0, 1, 1, 0, 0, 0]\<rparr>,
         Object_entity \<lparr>otype = Node, oid = 128407105, timestamp = 0,
           location = undefined_location,
           canonical = [65, 86, 167, 7, 0, 0, 0, 0, 1, 1, 0, 0, 0]\<rparr>]))
     = checksum (crc32 (run_handler
        [Object_entity \<lparr>otype = Node, oid = 128407105, timestamp = 0,
           location = undefined_location,
           canonical = [65, 86, 167, 7, 0, 0, 0, 0, 1, 1, 0, 0, 0]\<rparr>,
         Object_entity \<lparr>otype = Node, oid = 8000000000, timestamp = 0,
           location = undefined_location,
           canonical = [0, 80, 214, 220, 1, 0, 0, 0, 1, 1, 0, 0, 0]\<rparr>]))"
proof -
  let ?a = "Object_entity \<lparr>otype = Node, oid = 8000000000, timestamp = 0,
           location = undefined_location,
           canonical = [0, 80, 214, 220, 1, 0, 0, 0, 1, 1, 0, 0, 0]\<rparr>"
  let ?b = "Object_entity \<lparr>otype = Node, oid = 128407105, timestamp = 0,
           location = undefined_location,
           canonical = [65, 86, 167, 7, 0, 0, 0, 0, 1, 1, 0, 0, 0]\<rparr>"
  have "crc32 (apply_all InfoHandler_init [?a, ?b]) = crc32 (apply_all InfoHandler_init [?b, ?a])"
    by (rule swapped_ids_collide [where t = "[1, 1, 0, 0, 0]"]) simp_all
  then show ?thesis
    by (simp add: run_handler_def)
qed

section \<open>What the views show\<close>

lemma add_bbox_result:
  "add_bbox box =
     (if location_valid (bottom_left box) \<and> location_valid (top_right box)
      then Inr (JArray [JDouble (Lon (bottom_left box)), JDouble (Lat (bottom_left box)),
                        JDouble (Lon (top_right box)), JDouble (Lat (top_right box))])
      else Inl Invalid_location)"
  by (simp add: add_bbox_def lon_def lat_def)

lemma bounds_changeset: "bounds (apply_item h (Changeset_entity c)) = bounds h"
  by (simp add: apply_item.simps changeset_def Let_def)

lemma empty_box_invalid: "\<not> location_valid (bottom_left empty_box)"
  by (simp add: empty_box_def undefined_location_def undefined_coordinate_def
      location_valid_def)

text \<open>
  C5 at a stream without any node: the empty stream and a stream of one changeset.
  \<open>ordered\<close> is true and the single-value view of \<open>data.multiple_versions\<close> prints
  \<open>no\<close>, but \<open>JSONOutput::data\<close> throws \<open>invalid_location\<close> in \<open>add_bbox\<close>, before
  the key \<open>multiple_versions\<close> is written: the JSON view reports no value.
\<close>

theorem json_data_without_node_location:
  "ordered (run_handler [])
   \<and> SimpleOutput_data ''data.multiple_versions'' hdr (run_handler []) = [Str ''no'']
   \<and> JSONOutput_data hdr (run_handler []) = Inl Invalid_location
   \<and> ordered (run_handler [Changeset_entity c])
   \<and> SimpleOutput_data ''data.multiple_versions'' hdr (run_handler [Changeset_entity c])
       = [Str ''no'']
   \<and> JSONOutput_data hdr (run_handler [Changeset_entity c]) = Inl Invalid_location"
proof -
  have flags: "ordered (run_handler [])" "\<not> multiple_versions (run_handler [])"
    "ordered (run_handler [Changeset_entity c])"
    "\<not> multiple_versions (run_handler [Changeset_entity c])"
    by (simp_all add: run_handler_def apply_all_Cons apply_all_Nil flags_changeset
        InfoHandler_init_def)
  have box: "bounds (run_handler []) = empty_box"
    "bounds (run_handler [Changeset_entity c]) = empty_box"
    by (simp_all add: run_handler_def apply_all_Cons apply_all_Nil bounds_changeset
        InfoHandler_init_def)
  show ?thesis
    using flags
    by (simp add: SimpleOutput_data_def JSONOutput_data_def add_bbox_result box
        empty_box_invalid)
qed

text \<open>
  What holds of the two views in every handler state. The single-value view of
  \<open>data.multiple_versions\<close> is the one line \<open>unknown\<close> when \<open>ordered\<close> is false and
  the line \<open>yes\<close> or \<open>no\<close> for the value of \<open>multiple_versions\<close> when \<open>ordered\<close> is
  true. \<open>JSONOutput::data\<close> throws exactly when a corner of \<open>bounds\<close> is not a valid
  location; otherwise its \<open>data\<close> object has no member \<open>multiple_versions\<close> when
  \<open>ordered\<close> is false (no null either) and has it with the boolean value of
  \<open>multiple_versions\<close> when \<open>ordered\<close> is true.
\<close>

theorem multiple_versions_rendering:
  "SimpleOutput_data ''data.multiple_versions'' hdr info_handler =
     [Str (if ordered info_handler
           then (if multiple_versions info_handler then ''yes'' else ''no'')
           else ''unknown'')]
   \<and> (case JSONOutput_data hdr info_handler of
         Inl e \<Rightarrow>
           \<not> (location_valid (bottom_left (bounds info_handler))
              \<and> location_valid (top_right (bounds info_handler)))
       | Inr d \<Rightarrow>
           location_valid (bottom_left (bounds info_handler))
           \<and> location_valid (top_right (bounds info_handler))
           \<and> fst d = ''data''
           \<and> map_of (members (snd d)) ''multiple_versions'' =
               (if ordered info_handler
                then Some (JBool (multiple_versions info_handler)) else None))"
  by (simp add: SimpleOutput_data_def JSONOutput_data_def add_bbox_result)

text \<open>Two versions of a node with a valid location: the JSON view has the member, with \<open>true\<close>.\<close>

theorem multiple_versions_rendering_witness:
  "(case JSONOutput_data hdr (run_handler
        [Object_entity \<lparr>otype = Node, oid = 5, timestamp = 9,
           location = \<lparr>loc_x = 20, loc_y = 4\<rparr>, canonical = []\<rparr>,
         Object_entity \<lparr>otype = Node, oid = 5, timestamp = 9,
           location = \<lparr>loc_x = 20, loc_y = 4\<rparr>, canonical = []\<rparr>]) of
      Inl e \<Rightarrow> False
    | Inr d \<Rightarrow> map_of (members (snd d)) ''multiple_versions'' = Some (JBool True))"
proof -
  let ?n = "\<lparr>otype = Node, oid = 5, timestamp = 9,
           location = \<lparr>loc_x = 20, loc_y = 4\<rparr>, canonical = []\<rparr>"
  let ?h = "run_handler [Object_entity ?n, Object_entity ?n]"
  have flags: "ordered ?h" "multiple_versions ?h"
    by (simp_all add: run_handler_def apply_all_Cons apply_all_Nil flags_object
        last_seen_apply_item id_order_def InfoHandler_init_def)
  have box: "bounds ?h = \<lparr>bottom_left = \<lparr>loc_x = 20, loc_y = 4\<rparr>,
      top_right = \<lparr>loc_x = 20, loc_y = 4\<rparr>\<rparr>"
    by (simp add: run_handler_def apply_all_Cons apply_all_Nil apply_item.simps
        osm_object_def node_def Let_def box_extend_def location_valid_def
        location_defined_def empty_box_def undefined_location_def undefined_coordinate_def
        InfoHandler_init_def)
  from multiple_versions_rendering [of hdr ?h] flags box
  show ?thesis
    by (auto simp add: location_valid_def split: sum.splits)
qed






text \<open>
  A header with the options \<open>generator\<close> and \<open>version\<close>: the key
  \<open>header.option.generator\<close> passes the validation and prints the one line \<open>a\<close>; the
  key \<open>header.option.anything\<close> passes too and prints nothing.
\<close>

lemma single_value_example:
  "CommandFileinfo_setup
       \<lparr>vm_extended = False, vm_get = Some ''header.option.generator'',
        vm_show_variables = False, vm_json = False\<rparr>
     = Inr (Ready \<lparr>m_extended = False, m_json_output = False,
                    m_get_value = ''header.option.generator''\<rparr>)
   \<and> run_simple \<lparr>m_extended = False, m_json_output = False,
                    m_get_value = ''header.option.generator''\<rparr>
        \<lparr>input_filename = ''in.osm'', filename = ''in.osm'', format = ''XML'',
         compression = ''none'', file_size = 100\<rparr>
        \<lparr>boxes = [], has_multiple_object_versions = False,
         options = Options [(''generator'', ''a''), (''version'', ''0.6'')]\<rparr>
        []
     = [Str ''a'']
   \<and> run_simple \<lparr>m_extended = False, m_json_output = False,
                    m_get_value = ''header.option.anything''\<rparr>
        \<lparr>input_filename = ''in.osm'', filename = ''in.osm'', format = ''XML'',
         compression = ''none'', file_size = 100\<rparr>
        \<lparr>boxes = [], has_multiple_object_versions = False,
         options = Options [(''generator'', ''a''), (''version'', ''0.6'')]\<rparr>
        []
     = []"
  by (simp add: CommandFileinfo_setup_def run_simple_def SimpleOutput_file_def
      SimpleOutput_header_def Options_inverse)

section \<open>Validation of the requested key\<close>

lemma take_prefix: "length p = n \<Longrightarrow> (take n g = p) = prefix p g"
  by (metis append_eq_conv_conj prefix_def take_is_prefix)

lemma header_option_prefix: "(take 14 g = ''header.option.'') = prefix ''header.option.'' g"
  by (rule take_prefix) simp

lemma data_prefix: "(take 5 g = ''data.'') = prefix ''data.'' g"
  by (rule take_prefix) simp

text \<open>
  C6. When a key \<open>g\<close> is requested (and the known values are not merely listed), the
  key is rejected as unknown exactly when it neither starts with \<open>header.option.\<close> nor
  is one of the known values; a key that passes and starts with \<open>data.\<close> is rejected
  with another error when extended mode is off; every other key is accepted, unless JSON
  output is requested as well. The two errors differ. \<open>data.count.nodes\<close> without
  extended mode is rejected; \<open>header.option.anything\<close> is accepted with and without
  extended mode.
\<close>

theorem get_value_validation:
  "CommandFileinfo_setup
       \<lparr>vm_extended = e, vm_get = Some g, vm_show_variables = False, vm_json = j\<rparr> =
     (if \<not> (prefix ''header.option.'' g \<or> g \<in> set known_values)
      then Inl (Unknown_value g)
      else if prefix ''data.'' g \<and> \<not> e then Inl Extended_needed
      else if j then Inl Get_and_json_together
      else Inr (Ready \<lparr>m_extended = e, m_json_output = j, m_get_value = g\<rparr>))
   \<and> Extended_needed \<noteq> Unknown_value g
   \<and> CommandFileinfo_setup
       \<lparr>vm_extended = False, vm_get = Some ''data.count.nodes'', vm_show_variables = False,
        vm_json = j\<rparr> = Inl Extended_needed
   \<and> CommandFileinfo_setup
       \<lparr>vm_extended = e, vm_get = Some ''header.option.anything'', vm_show_variables = False,
        vm_json = False\<rparr>
     = Inr (Ready \<lparr>m_extended = e, m_json_output = False,
                    m_get_value = ''header.option.anything''\<rparr>)"
  by (simp add: CommandFileinfo_setup_def header_option_prefix data_prefix known_values_def)

section \<open>Further properties of the handler and the single-value view\<close>

lemma max_ids_apply_item:
  "largest_changeset_id (apply_item h e) =
     (if entity_type e = T_changeset then max (largest_changeset_id h) (entity_id e)
      else largest_changeset_id h)"
  "largest_node_id (apply_item h e) =
     (if entity_type e = T_object Node then max (largest_node_id h) (entity_id e)
      else largest_node_id h)"
  "largest_way_id (apply_item h e) =
     (if entity_type e = T_object Way then max (largest_way_id h) (entity_id e)
      else largest_way_id h)"
  "largest_relation_id (apply_item h e) =
     (if entity_type e = T_object Relation then max (largest_relation_id h) (entity_id e)
      else largest_relation_id h)"
  by (cases e; simp add: apply_item.simps changeset_def osm_object_def node_def way_def
      relation_def Let_def split: object_type.split)+

lemma max_ids_nonpositive:
  "\<forall>e \<in> set es. entity_id e \<le> 0 \<Longrightarrow>
   largest_changeset_id h = 0 \<and> largest_node_id h = 0
     \<and> largest_way_id h = 0 \<and> largest_relation_id h = 0 \<Longrightarrow>
   largest_changeset_id (apply_all h es) = 0 \<and> largest_node_id (apply_all h es) = 0
     \<and> largest_way_id (apply_all h es) = 0 \<and> largest_relation_id (apply_all h es) = 0"
proof (induction es arbitrary: h)
  case Nil
  then show ?case by (simp add: apply_all_Nil)
next
  case (Cons e es)
  from Cons.prems have "entity_id e \<le> 0" by simp
  with Cons.prems(2) have
    "largest_changeset_id (apply_item h e) = 0 \<and> largest_node_id (apply_item h e) = 0
     \<and> largest_way_id (apply_item h e) = 0 \<and> largest_relation_id (apply_item h e) = 0"
    by (simp add: max_ids_apply_item)
  with Cons.IH [of "apply_item h e"] Cons.prems(1) show ?case
    by (simp add: apply_all_Cons)
qed

text \<open>
  The four largest ids start at zero: after a stream in which no id is positive (only
  placeholder ids and zero), each of them is still zero.
\<close>

theorem largest_ids_of_placeholder_ids:
  "(\<forall>e \<in> set es. entity_id e \<le> 0) \<longrightarrow>
   largest_changeset_id (run_handler es) = 0 \<and> largest_node_id (run_handler es) = 0
     \<and> largest_way_id (run_handler es) = 0 \<and> largest_relation_id (run_handler es) = 0"
proof
  assume "\<forall>e \<in> set es. entity_id e \<le> 0"
  from max_ids_nonpositive [OF this, of InfoHandler_init]
  show "largest_changeset_id (run_handler es) = 0 \<and> largest_node_id (run_handler es) = 0
     \<and> largest_way_id (run_handler es) = 0 \<and> largest_relation_id (run_handler es) = 0"
    by (simp add: run_handler_def InfoHandler_init_def)
qed

theorem largest_ids_of_placeholder_ids_witness:
  "largest_node_id (run_handler
      [Object_entity \<lparr>otype = Node, oid = - 7, timestamp = 0,
         location = undefined_location, canonical = []\<rparr>,
       Object_entity \<lparr>otype = Node, oid = - 3, timestamp = 0,
         location = undefined_location, canonical = []\<rparr>]) = 0"
  using largest_ids_of_placeholder_ids [of
      "[Object_entity \<lparr>otype = Node, oid = - 7, timestamp = 0,
         location = undefined_location, canonical = []\<rparr>,
       Object_entity \<lparr>otype = Node, oid = - 3, timestamp = 0,
         location = undefined_location, canonical = []\<rparr>]"]
  by simp

text \<open>
  After a stream without objects, the single-value queries \<open>data.timestamp.first\<close> and
  \<open>data.timestamp.last\<close> each print one empty line.
\<close>

theorem empty_stream_timestamp_queries:
  "(\<forall>e \<in> set es. entity_type e = T_changeset) \<longrightarrow>
   SimpleOutput_data ''data.timestamp.first'' hdr (run_handler es) = [Str []]
   \<and> SimpleOutput_data ''data.timestamp.last'' hdr (run_handler es) = [Str []]"
proof
  assume a: "\<forall>e \<in> set es. entity_type e = T_changeset"
  have "\<forall>e \<in> set es. case e of Changeset_entity c \<Rightarrow> True
            | Object_entity ob \<Rightarrow> timestamp ob = end_of_time"
  proof
    fix e
    assume "e \<in> set es"
    with a have "entity_type e = T_changeset" by simp
    then show "case e of Changeset_entity c \<Rightarrow> True
            | Object_entity ob \<Rightarrow> timestamp ob = end_of_time"
      by (cases e) simp_all
  qed
  then have "first_timestamp (run_handler es) = end_of_time"
    by (simp add: run_handler_def first_timestamp_apply_all InfoHandler_init_def)
  then show "SimpleOutput_data ''data.timestamp.first'' hdr (run_handler es) = [Str []]
   \<and> SimpleOutput_data ''data.timestamp.last'' hdr (run_handler es) = [Str []]"
    by (simp add: SimpleOutput_data_def)
qed

theorem empty_stream_timestamp_queries_witness:
  "SimpleOutput_data ''data.timestamp.first''
      \<lparr>boxes = [], has_multiple_object_versions = False, options = Options []\<rparr>
      (run_handler [Changeset_entity \<lparr>cid = 4, ccanonical = []\<rparr>]) = [Str []]
   \<and> SimpleOutput_data ''data.timestamp.last''
      \<lparr>boxes = [], has_multiple_object_versions = False, options = Options []\<rparr>
      (run_handler [Changeset_entity \<lparr>cid = 4, ccanonical = []\<rparr>]) = [Str []]"
  using empty_stream_timestamp_queries [of "[Changeset_entity \<lparr>cid = 4, ccanonical = []\<rparr>]"
      "\<lparr>boxes = [], has_multiple_object_versions = False, options = Options []\<rparr>"]
  by simp

end
